theory Spec2Isabelle
  imports Complex_Main "HOL-Library.Sublist"
begin

section \<open>Numbers and exceptions\<close>

text \<open>
  The indicator functions of \<^verbatim>\<open>backend/python/app.py\<close> work on pandas Series of
  float64. A float64 is modelled as a real number or one of the three special values that
  the code's arithmetic can produce: \<open>NaN\<close> (pandas' marker of an undefined position),
  \<open>PInf\<close> and \<open>NInf\<close>. Finite arithmetic is exact (rounding and overflow are not
  modelled) and zero has no sign: a positive number divided by zero is \<open>PInf\<close>.
  Series arithmetic (numpy) never raises; Python's own float division does.
\<close>

datatype fl = NaN | NInf | Fin real | PInf

datatype error =
    ZeroDivisionError
  | IndexError
  | AttributeError
  | External string

fun fl_neg :: "fl \<Rightarrow> fl" where
  "fl_neg NaN = NaN"
| "fl_neg NInf = PInf"
| "fl_neg (Fin a) = Fin (- a)"
| "fl_neg PInf = NInf"

fun fl_add :: "fl \<Rightarrow> fl \<Rightarrow> fl" where
  "fl_add (Fin a) (Fin b) = Fin (a + b)"
| "fl_add (Fin a) PInf = PInf"
| "fl_add (Fin a) NInf = NInf"
| "fl_add PInf (Fin b) = PInf"
| "fl_add PInf PInf = PInf"
| "fl_add NInf (Fin b) = NInf"
| "fl_add NInf NInf = NInf"
| "fl_add _ _ = NaN"

definition fl_sub :: "fl \<Rightarrow> fl \<Rightarrow> fl" where
  "fl_sub a b = fl_add a (fl_neg b)"

fun fl_mul :: "fl \<Rightarrow> fl \<Rightarrow> fl" where
  "fl_mul (Fin a) (Fin b) = Fin (a * b)"
| "fl_mul (Fin a) PInf = (if a = 0 then NaN else if 0 < a then PInf else NInf)"
| "fl_mul (Fin a) NInf = (if a = 0 then NaN else if 0 < a then NInf else PInf)"
| "fl_mul PInf (Fin b) = (if b = 0 then NaN else if 0 < b then PInf else NInf)"
| "fl_mul NInf (Fin b) = (if b = 0 then NaN else if 0 < b then NInf else PInf)"
| "fl_mul PInf PInf = PInf"
| "fl_mul NInf NInf = PInf"
| "fl_mul PInf NInf = NInf"
| "fl_mul NInf PInf = NInf"
| "fl_mul _ _ = NaN"

fun fl_div :: "fl \<Rightarrow> fl \<Rightarrow> fl" where
  "fl_div (Fin a) (Fin b) =
     (if b = 0 then (if a = 0 then NaN else if 0 < a then PInf else NInf)
      else Fin (a / b))"
| "fl_div (Fin a) PInf = Fin 0"
| "fl_div (Fin a) NInf = Fin 0"
| "fl_div PInf (Fin b) = (if 0 \<le> b then PInf else NInf)"
| "fl_div NInf (Fin b) = (if 0 \<le> b then NInf else PInf)"
| "fl_div _ _ = NaN"

fun fl_sqrt :: "fl \<Rightarrow> fl" where
  "fl_sqrt (Fin a) = (if a < 0 then NaN else Fin (sqrt a))"
| "fl_sqrt PInf = PInf"
| "fl_sqrt _ = NaN"

text \<open>Comparisons: every comparison with \<open>NaN\<close> is false.\<close>

fun fl_lt :: "fl \<Rightarrow> fl \<Rightarrow> bool" where
  "fl_lt (Fin a) (Fin b) = (a < b)"
| "fl_lt (Fin a) PInf = True"
| "fl_lt NInf (Fin b) = True"
| "fl_lt NInf PInf = True"
| "fl_lt _ _ = False"

definition fl_gt :: "fl \<Rightarrow> fl \<Rightarrow> bool" where
  "fl_gt a b = fl_lt b a"

fun fl_le :: "fl \<Rightarrow> fl \<Rightarrow> bool" where
  "fl_le NaN _ = False"
| "fl_le _ NaN = False"
| "fl_le a b = (a = b \<or> fl_lt a b)"

text \<open>\<^verbatim>\<open>a / b\<close> on two Python floats raises on a zero divisor.\<close>

definition py_div :: "real \<Rightarrow> real \<Rightarrow> error + real" where
  "py_div a b = (if b = 0 then Inl ZeroDivisionError else Inr (a / b))"

section \<open>The pandas operations the indicators call\<close>

text \<open>
  A Series is the list of its values; the index plays no role in \<^verbatim>\<open>app.py\<close>. The
  closes and volumes handed to the indicators are finite numbers (\<open>real list\<close>); the
  Series computed from them are \<open>fl list\<close>.
\<close>

text \<open>\<^verbatim>\<open>s.diff()\<close>: position 0 is NaN, position i is \<^verbatim>\<open>s[i] - s[i-1]\<close>.\<close>

definition diff :: "fl list \<Rightarrow> fl list" where
  "diff s = (case s of [] \<Rightarrow> [] | _ # rest \<Rightarrow> NaN # map2 (\<lambda>prev cur. fl_sub cur prev) s rest)"

text \<open>\<^verbatim>\<open>s.where(cond, other)\<close>: keeps the value where the condition holds.\<close>

definition where_ser :: "(fl \<Rightarrow> bool) \<Rightarrow> fl \<Rightarrow> fl list \<Rightarrow> fl list" where
  "where_ser cond other s = map (\<lambda>d. if cond d then d else other) s"

text \<open>
  \<^verbatim>\<open>s.rolling(window=w)\<close>: the window of position i holds the positions
  \<open>max 0 (i - w + 1) .. i\<close>; \<^verbatim>\<open>min_periods\<close> defaults to \<open>w\<close>. The aggregations
  count the finite values of the window (NaN is skipped, and pandas turns an infinity into
  NaN before a rolling aggregation) and give NaN when there are fewer than
  \<^verbatim>\<open>min_periods\<close> of them.
\<close>

definition window_at :: "nat \<Rightarrow> 'a list \<Rightarrow> nat \<Rightarrow> 'a list" where
  "window_at w s i = drop (Suc i - w) (take (Suc i) s)"

primrec observations :: "fl list \<Rightarrow> real list" where
  "observations [] = []"
| "observations (x # xs) = (case x of Fin v \<Rightarrow> v # observations xs | _ \<Rightarrow> observations xs)"

definition calc_mean :: "nat \<Rightarrow> real list \<Rightarrow> fl" where
  "calc_mean minp obs =
     (let nobs = length obs
      in if minp \<le> nobs \<and> 0 < nobs then Fin (sum_list obs / real nobs) else NaN)"

definition calc_var :: "nat \<Rightarrow> nat \<Rightarrow> real list \<Rightarrow> fl" where
  "calc_var minp ddof obs =
     (let nobs = length obs
      in if minp \<le> nobs \<and> ddof < nobs
         then (let m = sum_list obs / real nobs
               in Fin (sum_list (map (\<lambda>x. (x - m)\<^sup>2) obs) / real (nobs - ddof)))
         else NaN)"

definition rolling_mean :: "nat \<Rightarrow> fl list \<Rightarrow> fl list" where
  "rolling_mean w s = map (\<lambda>i. calc_mean w (observations (window_at w s i))) [0..<length s]"

text \<open>\<^verbatim>\<open>.std()\<close> is the sample standard deviation (\<^verbatim>\<open>ddof=1\<close>).\<close>

definition rolling_std :: "nat \<Rightarrow> fl list \<Rightarrow> fl list" where
  "rolling_std w s =
     map (\<lambda>i. fl_sqrt (calc_var w 1 (observations (window_at w s i)))) [0..<length s]"

text \<open>
  \<^verbatim>\<open>s.ewm(span=n, adjust=False).mean()\<close> on a Series without NaN: the running value
  starts at the first sample and is updated with weight \<open>2 / (n + 1)\<close> on the new sample.
\<close>

fun ewm_loop :: "real \<Rightarrow> real \<Rightarrow> real list \<Rightarrow> real list" where
  "ewm_loop alpha weighted [] = []"
| "ewm_loop alpha weighted (cur # rest) =
     (let weighted' = (1 - alpha) * weighted + alpha * cur
      in weighted' # ewm_loop alpha weighted' rest)"

definition ewm_mean :: "nat \<Rightarrow> real list \<Rightarrow> real list" where
  "ewm_mean n s =
     (case s of [] \<Rightarrow> [] | x0 # rest \<Rightarrow> x0 # ewm_loop (2 / (real n + 1)) x0 rest)"

section \<open>The indicator functions\<close>

text \<open>
  \<^verbatim>\<open>TALIB_AVAILABLE\<close> and the module it guards are one value: \<open>None\<close> when the
  import failed, otherwise the three functions of TA-Lib that \<^verbatim>\<open>app.py\<close> calls. What
  they compute is not part of this repository; a call may raise.
\<close>

record talib_lib =
  RSI :: "real list \<Rightarrow> nat \<Rightarrow> error + fl list"
  MACD :: "real list \<Rightarrow> nat \<Rightarrow> nat \<Rightarrow> nat \<Rightarrow> error + (fl list \<times> fl list \<times> fl list)"
  BBANDS :: "real list \<Rightarrow> nat \<Rightarrow> real \<Rightarrow> real \<Rightarrow> error + (fl list \<times> fl list \<times> fl list)"

text \<open>
  \<^verbatim>\<open>calculate_rsi\<close>, lines 22 to 33. The local Series \<^verbatim>\<open>gain\<close> and
  \<^verbatim>\<open>loss\<close> are named, since the properties of the result are stated through them.
\<close>

definition rsi_gain :: "real list \<Rightarrow> nat \<Rightarrow> fl list" where
  "rsi_gain prices period =
     (let delta = diff (map Fin prices)
      in rolling_mean period (where_ser (\<lambda>d. fl_gt d (Fin 0)) (Fin 0) delta))"

definition rsi_loss :: "real list \<Rightarrow> nat \<Rightarrow> fl list" where
  "rsi_loss prices period =
     (let delta = diff (map Fin prices)
      in rolling_mean period (map fl_neg (where_ser (\<lambda>d. fl_lt d (Fin 0)) (Fin 0) delta)))"

definition calculate_rsi_fallback :: "real list \<Rightarrow> nat \<Rightarrow> fl list" where
  "calculate_rsi_fallback prices period =
     (let gain = rsi_gain prices period;
          loss = rsi_loss prices period;
          rs = map2 fl_div gain loss;
          rsi = map (\<lambda>r. fl_sub (Fin 100) (fl_div (Fin 100) (fl_add (Fin 1) r))) rs
      in rsi)"

definition calculate_rsi :: "talib_lib option \<Rightarrow> real list \<Rightarrow> nat \<Rightarrow> error + fl list" where
  "calculate_rsi talib prices period =
     (case talib of
        Some lib \<Rightarrow> RSI lib prices period
      | None \<Rightarrow> Inr (calculate_rsi_fallback prices period))"

text \<open>\<^verbatim>\<open>calculate_macd\<close>, lines 35 to 47.\<close>

record macd_result =
  macd :: "fl list"
  signal :: "fl list"
  histogram :: "fl list"

definition calculate_macd_fallback :: "real list \<Rightarrow> macd_result" where
  "calculate_macd_fallback prices =
     (let exp1 = ewm_mean 12 prices;
          exp2 = ewm_mean 26 prices;
          macd = map2 (-) exp1 exp2;
          signal = ewm_mean 9 macd;
          histogram = map2 (-) macd signal
      in \<lparr>macd = map Fin macd, signal = map Fin signal, histogram = map Fin histogram\<rparr>)"

definition calculate_macd :: "talib_lib option \<Rightarrow> real list \<Rightarrow> error + macd_result" where
  "calculate_macd talib prices =
     (case talib of
        Some lib \<Rightarrow>
          (case MACD lib prices 12 26 9 of
             Inl e \<Rightarrow> Inl e
           | Inr (m, s, h) \<Rightarrow> Inr \<lparr>macd = m, signal = s, histogram = h\<rparr>)
      | None \<Rightarrow> Inr (calculate_macd_fallback prices))"

text \<open>\<^verbatim>\<open>calculate_bollinger_bands\<close>, lines 49 to 60.\<close>

record bands =
  upper :: "fl list"
  middle :: "fl list"
  lower :: "fl list"

definition calculate_bollinger_bands_fallback :: "real list \<Rightarrow> nat \<Rightarrow> real \<Rightarrow> bands" where
  "calculate_bollinger_bands_fallback prices period std_dev =
     (let sma = rolling_mean period (map Fin prices);
          std = rolling_std period (map Fin prices);
          upper = map2 fl_add sma (map (\<lambda>s. fl_mul s (Fin std_dev)) std);
          lower = map2 fl_sub sma (map (\<lambda>s. fl_mul s (Fin std_dev)) std)
      in \<lparr>upper = upper, middle = sma, lower = lower\<rparr>)"

definition calculate_bollinger_bands ::
  "talib_lib option \<Rightarrow> real list \<Rightarrow> nat \<Rightarrow> real \<Rightarrow> error + bands" where
  "calculate_bollinger_bands talib prices period std_dev =
     (case talib of
        Some lib \<Rightarrow>
          (case BBANDS lib prices period std_dev std_dev of
             Inl e \<Rightarrow> Inl e
           | Inr (u, m, l) \<Rightarrow> Inr \<lparr>upper = u, middle = m, lower = l\<rparr>)
      | None \<Rightarrow> Inr (calculate_bollinger_bands_fallback prices period std_dev))"

section \<open>The two routes\<close>

text \<open>
  \<^verbatim>\<open>yf.Ticker(symbol).history(period=p)\<close> is the one outside call: it returns the rows
  of a DataFrame (here their \<^verbatim>\<open>Close\<close> and \<^verbatim>\<open>Volume\<close> columns, oldest first) or
  raises. A run reads the environment: the TA-Lib switch and the history provider.
\<close>

record row =
  Close :: real
  Volume :: real

record env =
  talib :: "talib_lib option"
  yf_history :: "string \<Rightarrow> string \<Rightarrow> error + row list"

datatype http_error = NotFound | ServerError error

text \<open>\<^verbatim>\<open>s.iloc[-1]\<close> raises on an empty Series.\<close>

definition iloc_last :: "'a list \<Rightarrow> error + 'a" where
  "iloc_last s = (if s = [] then Inl IndexError else Inr (last s))"

definition series_mean :: "real list \<Rightarrow> real" where
  "series_mean s = sum_list s / real (length s)"

text \<open>
  The volume analysis, written out twice in \<^verbatim>\<open>app.py\<close> (lines 100 to 103 and 149
  to 151) with the same three statements, on the \<^verbatim>\<open>Volume\<close> column of the
  history: the mean, the latest value (\<^verbatim>\<open>iloc[-1]\<close>) and the guarded division of
  two Python floats.
\<close>

definition volume_analysis :: "real list \<Rightarrow> error + (real \<times> real \<times> real)" where
  "volume_analysis volumes =
     (let avg_volume = series_mean volumes
      in case iloc_last volumes of
           Inl ex \<Rightarrow> Inl ex
         | Inr latest_volume \<Rightarrow>
             (case (if 0 < avg_volume then py_div latest_volume avg_volume else Inr 0) of
                Inl ex \<Rightarrow> Inl ex
              | Inr volume_spike \<Rightarrow> Inr (latest_volume, avg_volume, volume_spike)))"

text \<open>\<^verbatim>\<open>run_screener\<close>, lines 122 to 177.\<close>

record match =
  m_ticker :: string
  m_price :: real
  m_rsi :: real
  m_volume_spike :: real
  m_score :: real

record request =
  req_tickers :: "string list option"
  req_criteria :: "(string \<rightharpoonup> real) option"

text \<open>
  The body of the loop over the tickers, lines 137 to 165: \<open>Inl\<close> is an exception (caught
  by the inner \<^verbatim>\<open>except\<close>), \<open>Inr None\<close> a ticker that adds nothing to
  \<^verbatim>\<open>results\<close>, \<open>Inr (Some m)\<close> the appended entry. The criteria check holds only
  for a finite \<^verbatim>\<open>latest_rsi\<close>, whose value the entry stores.
\<close>

definition screen_ticker :: "env \<Rightarrow> real \<Rightarrow> real \<Rightarrow> real \<Rightarrow> string \<Rightarrow> error + match option" where
  "screen_ticker e rsi_min rsi_max volume_spike ticker =
     (let ticker_symbol = ticker @ ''.OL''
      in case yf_history e ticker_symbol ''3mo'' of
           Inl ex \<Rightarrow> Inl ex
         | Inr hist \<Rightarrow>
             if hist = [] then Inr None
             else
               (let prices = map Close hist
                in case calculate_rsi (talib e) prices 14 of
                     Inl ex \<Rightarrow> Inl ex
                   | Inr rsi \<Rightarrow>
                       (case iloc_last rsi of
                          Inl ex \<Rightarrow> Inl ex
                        | Inr latest_rsi \<Rightarrow>
                            (case volume_analysis (map Volume hist) of
                               Inl ex \<Rightarrow> Inl ex
                             | Inr (latest_volume, avg_volume, vol_spike) \<Rightarrow>
                                 if fl_le (Fin rsi_min) latest_rsi \<and> fl_le latest_rsi (Fin rsi_max)
                                    \<and> volume_spike \<le> vol_spike
                                 then (case latest_rsi of
                                         Fin r \<Rightarrow>
                                           Inr (Some \<lparr>m_ticker = ticker,
                                                      m_price = last prices,
                                                      m_rsi = r,
                                                      m_volume_spike = vol_spike,
                                                      m_score = (100 - \<bar>50 - r\<bar>) + (vol_spike * 10)\<rparr>)
                                       | _ \<Rightarrow> Inr None)
                                 else Inr None))))"

fun screener_loop :: "env \<Rightarrow> real \<Rightarrow> real \<Rightarrow> real \<Rightarrow> string list \<Rightarrow> match list \<Rightarrow> match list" where
  "screener_loop e rsi_min rsi_max volume_spike [] results = results"
| "screener_loop e rsi_min rsi_max volume_spike (ticker # rest) results =
     (case screen_ticker e rsi_min rsi_max volume_spike ticker of
        Inr (Some m) \<Rightarrow> screener_loop e rsi_min rsi_max volume_spike rest (results @ [m])
      | Inr None \<Rightarrow> screener_loop e rsi_min rsi_max volume_spike rest results
      | Inl ex \<Rightarrow> screener_loop e rsi_min rsi_max volume_spike rest results)"

text \<open>
  \<^verbatim>\<open>xs.sort(key=k, reverse=True)\<close>: CPython reverses the list, sorts it stably by
  ascending key and reverses it again.
\<close>

definition sort_reverse :: "('a \<Rightarrow> real) \<Rightarrow> 'a list \<Rightarrow> 'a list" where
  "sort_reverse k xs = rev (sort_key k (rev xs))"

definition dict_get :: "('k \<rightharpoonup> 'v) \<Rightarrow> 'k \<Rightarrow> 'v \<Rightarrow> 'v" where
  "dict_get d k dflt = (case d k of None \<Rightarrow> dflt | Some v \<Rightarrow> v)"

record report =
  results :: "match list"
  total_scanned :: nat
  matches :: nat

text \<open>
  Lines 134 to 174: the loop, the sort and the answer, for the tickers and the three
  thresholds read from the request.
\<close>

definition screener_report :: "env \<Rightarrow> real \<Rightarrow> real \<Rightarrow> real \<Rightarrow> string list \<Rightarrow> report" where
  "screener_report e rsi_min rsi_max volume_spike tickers =
     (let results = screener_loop e rsi_min rsi_max volume_spike tickers [];
          results = sort_reverse m_score results
      in \<lparr>results = take 10 results,
          total_scanned = length tickers,
          matches = length results\<rparr>)"

text \<open>
  Lines 125 to 132 and 176 to 177. The request body is \<open>None\<close> when it carries no JSON
  object; \<^verbatim>\<open>data.get\<close> then raises, which the outer \<^verbatim>\<open>except\<close> turns into the
  500 answer.
\<close>

definition run_screener :: "env \<Rightarrow> request option \<Rightarrow> http_error + report" where
  "run_screener e data =
     (case data of
        None \<Rightarrow> Inl (ServerError AttributeError)
      | Some d \<Rightarrow>
          (let tickers = (case req_tickers d of None \<Rightarrow> [] | Some ts \<Rightarrow> ts);
               criteria = (case req_criteria d of None \<Rightarrow> Map.empty | Some c \<Rightarrow> c);
               rsi_min = dict_get criteria ''rsi_min'' 30;
               rsi_max = dict_get criteria ''rsi_max'' 70;
               volume_spike = dict_get criteria ''volume_spike'' 1.5
           in Inr (screener_report e rsi_min rsi_max volume_spike tickers)))"

text \<open>
  \<^verbatim>\<open>get_indicators\<close>, lines 66 to 120, without the HTTP encoding and the timestamp.
  A latest value that is NaN is reported as \<open>None\<close>.
\<close>

record indicators =
  ind_ticker :: string
  ind_latest_price :: real
  ind_rsi :: "fl option"
  ind_macd :: "fl option \<times> fl option \<times> fl option"
  ind_bollinger_bands :: "fl option \<times> fl option \<times> fl option"
  ind_volume_current :: real
  ind_volume_average :: real
  ind_volume_spike_ratio :: real

definition latest_or_none :: "fl list \<Rightarrow> error + fl option" where
  "latest_or_none s =
     (case iloc_last s of
        Inl ex \<Rightarrow> Inl ex
      | Inr v \<Rightarrow> Inr (if v \<noteq> NaN then Some v else None))"

definition get_indicators_body :: "env \<Rightarrow> string \<Rightarrow> row list \<Rightarrow> error + indicators" where
  "get_indicators_body e ticker hist =
     (let prices = map Close hist
      in case calculate_rsi (talib e) prices 14 of Inl ex \<Rightarrow> Inl ex | Inr rsi \<Rightarrow>
         (case calculate_macd (talib e) prices of Inl ex \<Rightarrow> Inl ex | Inr macd_data \<Rightarrow>
         (case calculate_bollinger_bands (talib e) prices 20 2 of Inl ex \<Rightarrow> Inl ex | Inr bb \<Rightarrow>
         (case latest_or_none rsi of Inl ex \<Rightarrow> Inl ex | Inr latest_rsi \<Rightarrow>
         (case latest_or_none (macd macd_data) of Inl ex \<Rightarrow> Inl ex | Inr l_macd \<Rightarrow>
         (case latest_or_none (signal macd_data) of Inl ex \<Rightarrow> Inl ex | Inr l_signal \<Rightarrow>
         (case latest_or_none (histogram macd_data) of Inl ex \<Rightarrow> Inl ex | Inr l_hist \<Rightarrow>
         (case latest_or_none (upper bb) of Inl ex \<Rightarrow> Inl ex | Inr l_upper \<Rightarrow>
         (case latest_or_none (middle bb) of Inl ex \<Rightarrow> Inl ex | Inr l_middle \<Rightarrow>
         (case latest_or_none (lower bb) of Inl ex \<Rightarrow> Inl ex | Inr l_lower \<Rightarrow>
         (case volume_analysis (map Volume hist) of
            Inl ex \<Rightarrow> Inl ex
          | Inr (latest_volume, avg_volume, volume_spike) \<Rightarrow>
              Inr \<lparr>ind_ticker = ticker,
                   ind_latest_price = last prices,
                   ind_rsi = latest_rsi,
                   ind_macd = (l_macd, l_signal, l_hist),
                   ind_bollinger_bands = (l_upper, l_middle, l_lower),
                   ind_volume_current = latest_volume,
                   ind_volume_average = avg_volume,
                   ind_volume_spike_ratio = volume_spike\<rparr>)))))))))))"

definition endswith :: "string \<Rightarrow> string \<Rightarrow> bool" where
  "endswith s suffix_s = suffix suffix_s s"

definition get_indicators :: "env \<Rightarrow> string \<Rightarrow> http_error + indicators" where
  "get_indicators e ticker =
     (let ticker_symbol = (if \<not> endswith ticker ''.OL'' then ticker @ ''.OL'' else ticker)
      in case yf_history e ticker_symbol ''6mo'' of
           Inl ex \<Rightarrow> Inl (ServerError ex)
         | Inr hist \<Rightarrow>
             if hist = [] then Inl NotFound
             else (case get_indicators_body e ticker hist of
                     Inl ex \<Rightarrow> Inl (ServerError ex)
                   | Inr r \<Rightarrow> Inr r))"

section \<open>Auxiliary definitions for the statements\<close>

text \<open>
  The series that \<^verbatim>\<open>calculate_rsi\<close> averages, as plain numbers: the rise and the fall
  of each close against the one before it, and zero at position 0 (where
  \<^verbatim>\<open>where\<close> replaces the NaN of \<^verbatim>\<open>diff\<close>).
\<close>

definition gains :: "real list \<Rightarrow> real list" where
  "gains prices =
     map (\<lambda>j. if 0 < j \<and> prices ! (j - 1) < prices ! j then prices ! j - prices ! (j - 1) else 0)
       [0..<length prices]"

definition losses :: "real list \<Rightarrow> real list" where
  "losses prices =
     map (\<lambda>j. if 0 < j \<and> prices ! j < prices ! (j - 1) then prices ! (j - 1) - prices ! j else 0)
       [0..<length prices]"

text \<open>The 15 closes of the specification's RSI scenario.\<close>

definition scenario_series :: "real list" where
  "scenario_series =
     [10, 10.5, 10.2, 10.8, 11, 10.9, 11.2, 11.5, 11.3, 11.6, 11.8, 11.9, 12, 12.2, 12.1]"

text \<open>
  The EMA recurrence in the specification's words: \<open>ema[0] = x[0]\<close> and
  \<open>ema[i] = \<alpha> x[i] + (1 - \<alpha>) ema[i - 1]\<close>; and the MACD line it defines.
\<close>

fun ema_ref :: "real \<Rightarrow> real list \<Rightarrow> nat \<Rightarrow> real" where
  "ema_ref alpha x 0 = x ! 0"
| "ema_ref alpha x (Suc i) = alpha * x ! Suc i + (1 - alpha) * ema_ref alpha x i"

definition macd_ref :: "real list \<Rightarrow> real list" where
  "macd_ref prices =
     map (\<lambda>i. ema_ref (2 / (12 + 1)) prices i - ema_ref (2 / (26 + 1)) prices i)
       [0..<length prices]"

text \<open>
  The sample variance of the window of \<open>w\<close> closes that ends at position \<open>i\<close>, and
  its mean.
\<close>

definition window_mean :: "nat \<Rightarrow> real list \<Rightarrow> nat \<Rightarrow> real" where
  "window_mean w xs i = sum_list (window_at w xs i) / real w"

definition window_var :: "nat \<Rightarrow> real list \<Rightarrow> nat \<Rightarrow> real" where
  "window_var w xs i =
     sum_list (map (\<lambda>x. (x - window_mean w xs i)\<^sup>2) (window_at w xs i)) / real (w - 1)"

text \<open>
  The entries that a run appends to \<^verbatim>\<open>results\<close>, ticker by ticker in the order of
  the request, each from the loop body on that ticker alone.
\<close>

definition admitted :: "env \<Rightarrow> real \<Rightarrow> real \<Rightarrow> real \<Rightarrow> string \<Rightarrow> match list" where
  "admitted e rsi_min rsi_max volume_spike ticker =
     (case screen_ticker e rsi_min rsi_max volume_spike ticker of
        Inr (Some m) \<Rightarrow> [m]
      | _ \<Rightarrow> [])"

definition admitted_matches :: "env \<Rightarrow> real \<Rightarrow> real \<Rightarrow> real \<Rightarrow> string list \<Rightarrow> match list" where
  "admitted_matches e rsi_min rsi_max volume_spike tickers =
     concat (map (admitted e rsi_min rsi_max volume_spike) tickers)"

text \<open>
  A ticker fails when its retrieval raises, its history is empty, or the computation of
  its latest RSI raises.
\<close>

definition ticker_fails :: "env \<Rightarrow> string \<Rightarrow> bool" where
  "ticker_fails e ticker =
     (case yf_history e (ticker @ ''.OL'') ''3mo'' of
        Inl ex \<Rightarrow> True
      | Inr hist \<Rightarrow>
          hist = [] \<or>
          (case calculate_rsi (talib e) (map Close hist) 14 of
             Inl ex \<Rightarrow> True
           | Inr rsi \<Rightarrow> rsi = []))"

text \<open>
  The screener scenario of the specification, without TA-Lib: ticker A has 15 rows whose
  last 14 changes are one rise of 9 and one fall of 11 (RSI 45) and a latest volume of
  twice the mean; ticker B has one rise of 4 and one fall of 1 (RSI 80) and the same
  volumes. Ticker C has three rows only, too few for the period 14. For any other symbol
  the provider raises.
\<close>

definition rows :: "real list \<Rightarrow> real list \<Rightarrow> row list" where
  "rows closes volumes = map2 (\<lambda>c v. \<lparr>Close = c, Volume = v\<rparr>) closes volumes"

definition scenario_volumes :: "real list" where
  "scenario_volumes = [13, 13, 13, 13, 13, 13, 13, 13, 13, 13, 13, 13, 13, 13, 28]"

definition scenario_rows_A :: "row list" where
  "scenario_rows_A =
     rows [100, 109, 98, 98, 98, 98, 98, 98, 98, 98, 98, 98, 98, 98, 98] scenario_volumes"

definition scenario_rows_B :: "row list" where
  "scenario_rows_B =
     rows [100, 104, 103, 103, 103, 103, 103, 103, 103, 103, 103, 103, 103, 103, 103]
       scenario_volumes"

definition scenario_rows_C :: "row list" where
  "scenario_rows_C = rows [50, 51, 50] [10, 10, 40]"

definition scenario_env :: env where
  "scenario_env =
     \<lparr>talib = None,
      yf_history = (\<lambda>symbol period.
        if symbol = ''A.OL'' then Inr scenario_rows_A
        else if symbol = ''B.OL'' then Inr scenario_rows_B
        else if symbol = ''C.OL'' then Inr scenario_rows_C
        else Inl (External ''no data''))\<rparr>"

definition scenario_request :: request where
  "scenario_request =
     \<lparr>req_tickers = Some [''A'', ''B''],
      req_criteria = Some [''rsi_min'' \<mapsto> 30, ''rsi_max'' \<mapsto> 70, ''volume_spike'' \<mapsto> 1.5]\<rparr>"

section \<open>Series operations: lengths and positions\<close>

lemma length_diff [simp]: "length (diff s) = length s"
  by (cases s) (simp_all add: diff_def)

lemma diff_nth_0: "s \<noteq> [] \<Longrightarrow> diff s ! 0 = NaN"
  by (cases s) (simp_all add: diff_def)

lemma diff_nth_Suc: "Suc j < length s \<Longrightarrow> diff s ! Suc j = fl_sub (s ! Suc j) (s ! j)"
  by (cases s) (simp_all add: diff_def)

lemma length_where_ser [simp]: "length (where_ser c v s) = length s"
  by (simp add: where_ser_def)

lemma length_rolling_mean [simp]: "length (rolling_mean w s) = length s"
  by (simp add: rolling_mean_def)

lemma length_rolling_std [simp]: "length (rolling_std w s) = length s"
  by (simp add: rolling_std_def)

lemma gain_raw_eq:
  "where_ser (\<lambda>d. fl_gt d (Fin 0)) (Fin 0) (diff (map Fin prices)) = map Fin (gains prices)"
proof (rule nth_equalityI)
  show "length (where_ser (\<lambda>d. fl_gt d (Fin 0)) (Fin 0) (diff (map Fin prices))) =
        length (map Fin (gains prices))"
    by (simp add: gains_def)
next
  fix j assume "j < length (where_ser (\<lambda>d. fl_gt d (Fin 0)) (Fin 0) (diff (map Fin prices)))"
  then have j: "j < length prices" by simp
  show "where_ser (\<lambda>d. fl_gt d (Fin 0)) (Fin 0) (diff (map Fin prices)) ! j =
        map Fin (gains prices) ! j"
  proof (cases j)
    case 0
    with j show ?thesis
      by (simp add: where_ser_def diff_nth_0 gains_def fl_gt_def)
  next
    case (Suc k)
    with j show ?thesis
      by (simp add: where_ser_def diff_nth_Suc gains_def fl_gt_def fl_sub_def)
  qed
qed

lemma loss_raw_eq:
  "map fl_neg (where_ser (\<lambda>d. fl_lt d (Fin 0)) (Fin 0) (diff (map Fin prices))) =
   map Fin (losses prices)"
proof (rule nth_equalityI)
  show "length (map fl_neg (where_ser (\<lambda>d. fl_lt d (Fin 0)) (Fin 0) (diff (map Fin prices)))) =
        length (map Fin (losses prices))"
    by (simp add: losses_def)
next
  fix j
  assume "j < length (map fl_neg (where_ser (\<lambda>d. fl_lt d (Fin 0)) (Fin 0) (diff (map Fin prices))))"
  then have j: "j < length prices" by simp
  show "map fl_neg (where_ser (\<lambda>d. fl_lt d (Fin 0)) (Fin 0) (diff (map Fin prices))) ! j =
        map Fin (losses prices) ! j"
  proof (cases j)
    case 0
    with j show ?thesis
      by (simp add: where_ser_def diff_nth_0 losses_def)
  next
    case (Suc k)
    with j show ?thesis
      by (simp add: where_ser_def diff_nth_Suc losses_def fl_sub_def)
  qed
qed

lemma observations_Fin [simp]: "observations (map Fin xs) = xs"
  by (induction xs) simp_all

lemma window_at_map: "window_at w (map f s) i = map f (window_at w s i)"
  by (simp add: window_at_def take_map drop_map)

lemma window_at_conv:
  assumes "i < length s"
  shows "window_at w s i = map ((!) s) [Suc i - w..<Suc i]"
proof -
  have "take (Suc i) s = take (Suc i) (map ((!) s) [0..<length s])"
    by (simp add: map_nth)
  also have "\<dots> = map ((!) s) [0..<Suc i]"
    using assms by (simp add: take_map min_def del: upt_Suc)
  finally have "window_at w s i = drop (Suc i - w) (map ((!) s) [0..<Suc i])"
    by (simp add: window_at_def)
  then show ?thesis
    by (simp add: drop_map del: upt_Suc)
qed

lemma length_window_at: "i < length s \<Longrightarrow> length (window_at w s i) = min w (Suc i)"
  by (simp add: window_at_conv del: upt_Suc)

lemma set_window_at:
  "i < length s \<Longrightarrow> set (window_at w s i) = {s ! j | j. Suc i - w \<le> j \<and> j \<le> i}"
  by (auto simp: window_at_conv less_Suc_eq_le simp del: upt_Suc)

lemma rolling_mean_Fin_nth:
  assumes "i < length xs"
  shows "rolling_mean w (map Fin xs) ! i =
         (if 0 < w \<and> w \<le> Suc i then Fin (sum_list (window_at w xs i) / real w) else NaN)"
proof -
  have len: "length (window_at w xs i) = min w (Suc i)"
    using assms by (rule length_window_at)
  have "rolling_mean w (map Fin xs) ! i = calc_mean w (window_at w xs i)"
    using assms by (simp add: rolling_mean_def window_at_map)
  also have "\<dots> = (if 0 < w \<and> w \<le> Suc i then Fin (sum_list (window_at w xs i) / real w) else NaN)"
    by (simp add: calc_mean_def len Let_def min_def)
  finally show ?thesis .
qed


lemma length_gains [simp]: "length (gains prices) = length prices"
  by (simp add: gains_def)

lemma length_losses [simp]: "length (losses prices) = length prices"
  by (simp add: losses_def)

lemma gains_nonneg: "x \<in> set (gains prices) \<Longrightarrow> 0 \<le> x"
  by (auto simp: gains_def)

lemma losses_nonneg: "x \<in> set (losses prices) \<Longrightarrow> 0 \<le> x"
  by (auto simp: losses_def)

lemma set_window_at_subset: "set (window_at w s i) \<subseteq> set s"
  unfolding window_at_def
  by (meson set_drop_subset set_take_subset subset_trans)

lemma length_rsi_gain [simp]: "length (rsi_gain prices P) = length prices"
  by (simp add: rsi_gain_def)

lemma length_rsi_loss [simp]: "length (rsi_loss prices P) = length prices"
  by (simp add: rsi_loss_def)

lemma length_calculate_rsi_fallback [simp]:
  "length (calculate_rsi_fallback prices P) = length prices"
  by (simp add: calculate_rsi_fallback_def)

lemma rsi_gain_nth:
  "i < length prices \<Longrightarrow>
   rsi_gain prices P ! i =
     (if 0 < P \<and> P \<le> Suc i then Fin (sum_list (window_at P (gains prices) i) / real P) else NaN)"
  by (simp add: rsi_gain_def gain_raw_eq rolling_mean_Fin_nth)

lemma rsi_loss_nth:
  "i < length prices \<Longrightarrow>
   rsi_loss prices P ! i =
     (if 0 < P \<and> P \<le> Suc i then Fin (sum_list (window_at P (losses prices) i) / real P) else NaN)"
  by (simp add: rsi_loss_def loss_raw_eq rolling_mean_Fin_nth)

lemma calculate_rsi_fallback_nth:
  "i < length prices \<Longrightarrow>
   calculate_rsi_fallback prices P ! i =
     fl_sub (Fin 100) (fl_div (Fin 100) (fl_add (Fin 1)
       (fl_div (rsi_gain prices P ! i) (rsi_loss prices P ! i))))"
  by (simp add: calculate_rsi_fallback_def)

lemma rsi_formula:
  assumes "0 \<le> g" "0 \<le> l"
  shows "fl_sub (Fin 100) (fl_div (Fin 100) (fl_add (Fin 1) (fl_div (Fin g) (Fin l)))) =
         (if l = 0 then (if g = 0 then NaN else Fin 100) else Fin (100 - 100 / (1 + g / l)))"
proof (cases "l = 0")
  case True
  with assms show ?thesis by (simp add: fl_sub_def)
next
  case False
  with assms have "0 \<le> g / l" by simp
  then have "1 + g / l \<noteq> 0" by linarith
  with False show ?thesis by (simp add: fl_sub_def)
qed

lemma window_gains_elem: "x \<in> set (window_at P (gains prices) i) \<Longrightarrow> 0 \<le> x"
  using set_window_at_subset [of P "gains prices" i] by (auto intro: gains_nonneg)

lemma window_losses_elem: "x \<in> set (window_at P (losses prices) i) \<Longrightarrow> 0 \<le> x"
  using set_window_at_subset [of P "losses prices" i] by (auto intro: losses_nonneg)

lemma window_gains_nonneg: "0 \<le> sum_list (window_at P (gains prices) i)"
  by (rule sum_list_nonneg) (rule window_gains_elem)

lemma window_losses_nonneg: "0 \<le> sum_list (window_at P (losses prices) i)"
  by (rule sum_list_nonneg) (rule window_losses_elem)

lemma rsi_warm_nth:
  assumes "i < length prices" "0 < P" "P \<le> Suc i"
  shows "calculate_rsi_fallback prices P ! i =
         (let g = sum_list (window_at P (gains prices) i) / real P;
              l = sum_list (window_at P (losses prices) i) / real P
          in if l = 0 then (if g = 0 then NaN else Fin 100) else Fin (100 - 100 / (1 + g / l)))"
proof -
  have g: "0 \<le> sum_list (window_at P (gains prices) i) / real P"
    using window_gains_nonneg by simp
  have l: "0 \<le> sum_list (window_at P (losses prices) i) / real P"
    using window_losses_nonneg by simp
  show ?thesis
    using assms rsi_formula [OF g l]
    by (simp add: calculate_rsi_fallback_nth rsi_gain_nth rsi_loss_nth Let_def)
qed

lemma rsi_cold_nth:
  assumes "i < length prices" "\<not> (0 < P \<and> P \<le> Suc i)"
  shows "calculate_rsi_fallback prices P ! i = NaN"
  using assms by (simp add: calculate_rsi_fallback_nth rsi_gain_nth rsi_loss_nth fl_sub_def)

lemma window_flat_iff:
  assumes "i < length prices"
  shows "sum_list (window_at P (gains prices) i) = 0 \<and> sum_list (window_at P (losses prices) i) = 0
         \<longleftrightarrow> (\<forall>j. Suc i - P \<le> j \<and> j \<le> i \<and> 0 < j \<longrightarrow> prices ! j = prices ! (j - 1))"
proof -
  have G: "sum_list (window_at P (gains prices) i) = 0 \<longleftrightarrow>
           (\<forall>j. Suc i - P \<le> j \<and> j \<le> i \<longrightarrow> gains prices ! j = 0)"
  proof -
    have "\<forall>x\<in>set (window_at P (gains prices) i). 0 \<le> x"
      by (simp add: window_gains_elem)
    then have "sum_list (window_at P (gains prices) i) = 0 \<longleftrightarrow>
               (\<forall>x\<in>set (window_at P (gains prices) i). x = 0)"
      by (simp add: sum_list_nonneg_eq_0_iff)
    also have "\<dots> \<longleftrightarrow> (\<forall>j. Suc i - P \<le> j \<and> j \<le> i \<longrightarrow> gains prices ! j = 0)"
      using assms by (auto simp: set_window_at)
    finally show ?thesis .
  qed
  have L: "sum_list (window_at P (losses prices) i) = 0 \<longleftrightarrow>
           (\<forall>j. Suc i - P \<le> j \<and> j \<le> i \<longrightarrow> losses prices ! j = 0)"
  proof -
    have "\<forall>x\<in>set (window_at P (losses prices) i). 0 \<le> x"
      by (simp add: window_losses_elem)
    then have "sum_list (window_at P (losses prices) i) = 0 \<longleftrightarrow>
               (\<forall>x\<in>set (window_at P (losses prices) i). x = 0)"
      by (simp add: sum_list_nonneg_eq_0_iff)
    also have "\<dots> \<longleftrightarrow> (\<forall>j. Suc i - P \<le> j \<and> j \<le> i \<longrightarrow> losses prices ! j = 0)"
      using assms by (auto simp: set_window_at)
    finally show ?thesis .
  qed
  have pt: "gains prices ! j = 0 \<and> losses prices ! j = 0 \<longleftrightarrow> (0 < j \<longrightarrow> prices ! j = prices ! (j - 1))"
    if "j \<le> i" for j
    using that assms by (auto simp: gains_def losses_def)
  show ?thesis
    unfolding G L using pt by blast
qed

lemma rsi_defined_iff:
  assumes "i < length prices"
  shows "calculate_rsi_fallback prices P ! i \<noteq> NaN \<longleftrightarrow>
         P \<le> Suc i \<and> (\<exists>j. Suc i - P \<le> j \<and> j \<le> i \<and> 0 < j \<and> prices ! j \<noteq> prices ! (j - 1))"
proof (cases "0 < P \<and> P \<le> Suc i")
  case False
  then have "calculate_rsi_fallback prices P ! i = NaN"
    using assms by (simp add: rsi_cold_nth)
  moreover have "\<not> (\<exists>j. Suc i - P \<le> j \<and> j \<le> i)" if "P = 0"
    using that by auto
  ultimately show ?thesis using False by auto
next
  case True
  then have P: "0 < P" "P \<le> Suc i" by simp_all
  have "calculate_rsi_fallback prices P ! i = NaN \<longleftrightarrow>
        sum_list (window_at P (gains prices) i) = 0 \<and> sum_list (window_at P (losses prices) i) = 0"
    using P by (auto simp: rsi_warm_nth [OF assms P] Let_def)
  then show ?thesis
    using P window_flat_iff [OF assms, of P] by auto
qed

lemma rsi_bounded:
  assumes "i < length prices"
  shows "calculate_rsi_fallback prices P ! i = NaN \<or>
         (\<exists>v. calculate_rsi_fallback prices P ! i = Fin v \<and> 0 \<le> v \<and> v \<le> 100)"
proof (cases "0 < P \<and> P \<le> Suc i")
  case False
  then show ?thesis using assms by (simp add: rsi_cold_nth)
next
  case True
  then have P: "0 < P" "P \<le> Suc i" by simp_all
  define g where "g = sum_list (window_at P (gains prices) i) / real P"
  define l where "l = sum_list (window_at P (losses prices) i) / real P"
  have g: "0 \<le> g" using window_gains_nonneg by (simp add: g_def)
  have l: "0 \<le> l" using window_losses_nonneg by (simp add: l_def)
  have eq: "calculate_rsi_fallback prices P ! i =
            (if l = 0 then (if g = 0 then NaN else Fin 100) else Fin (100 - 100 / (1 + g / l)))"
    by (simp add: rsi_warm_nth [OF assms P] g_def l_def Let_def)
  show ?thesis
  proof (cases "l = 0")
    case True
    then show ?thesis by (simp add: eq)
  next
    case False
    with l have lp: "0 < l" by simp
    with g have "0 \<le> g / l" by simp
    then have one: "1 \<le> 1 + g / l" by simp
    then have "0 < 100 / (1 + g / l)" by simp
    moreover have "100 / (1 + g / l) \<le> 100"
      using one by (simp add: divide_le_eq)
    ultimately show ?thesis using False by (simp add: eq)
  qed
qed


section \<open>RSI\<close>

text \<open>
  C1 (as amended). Without TA-Lib, \<^verbatim>\<open>calculate_rsi\<close> returns a Series as long as the
  prices. Every position before \<open>P - 1\<close> is NaN, so a series shorter than \<open>P\<close> gives
  only NaN. A position from \<open>P - 1\<close> on is defined exactly when some close in its window
  of \<open>P\<close> positions differs from the close before it; in the 15-sample scenario with
  \<open>P = 14\<close>, position 12 is NaN and position 13 is defined.
\<close>

theorem rsi_defined_positions:
  "\<exists>rsi. calculate_rsi None prices P = Inr rsi \<and> length rsi = length prices \<and>
     (\<forall>i<length prices. Suc i < P \<longrightarrow> rsi ! i = NaN) \<and>
     (\<forall>i<length prices. P \<le> Suc i \<longrightarrow>
        (rsi ! i \<noteq> NaN \<longleftrightarrow>
         (\<exists>j. Suc i - P \<le> j \<and> j \<le> i \<and> 0 < j \<and> prices ! j \<noteq> prices ! (j - 1)))) \<and>
     calculate_rsi_fallback scenario_series 14 ! 12 = NaN \<and>
     calculate_rsi_fallback scenario_series 14 ! 13 \<noteq> NaN"
proof -
  have a: "\<forall>i<length prices. Suc i < P \<longrightarrow> calculate_rsi_fallback prices P ! i = NaN"
    by (simp add: rsi_cold_nth)
  have b: "\<forall>i<length prices. P \<le> Suc i \<longrightarrow>
        (calculate_rsi_fallback prices P ! i \<noteq> NaN \<longleftrightarrow>
         (\<exists>j. Suc i - P \<le> j \<and> j \<le> i \<and> 0 < j \<and> prices ! j \<noteq> prices ! (j - 1)))"
    by (simp add: rsi_defined_iff)
  have c: "calculate_rsi_fallback scenario_series 14 ! 12 = NaN"
    by (simp add: rsi_cold_nth scenario_series_def)
  have d: "calculate_rsi_fallback scenario_series 14 ! 13 \<noteq> NaN"
    by code_simp
  from a b c d show ?thesis
    by (simp add: calculate_rsi_def)
qed

theorem rsi_defined_positions_witness:
  "calculate_rsi None [1, 2, 2, 2] 2 = Inr [NaN, Fin 100, Fin 100, NaN]"
proof -
  have "calculate_rsi None [1, 2, 2, 2] 2 = Inr (calculate_rsi_fallback [1, 2, 2, 2] 2)"
    by (simp add: calculate_rsi_def)
  moreover have "calculate_rsi_fallback [1, 2, 2, 2] 2 = [NaN, Fin 100, Fin 100, NaN]"
    by code_simp
  ultimately show ?thesis
    using rsi_defined_positions [of "[1, 2, 2, 2]" 2] by simp
qed

text \<open>
  The claim as first stated fails: with period 2 and the two closes 5, 5 the series is as
  long as the period, and position \<open>P - 1 = 1\<close> is NaN (average gain and average loss
  are both zero, and 0 / 0 is NaN).
\<close>

theorem rsi_flat_counterexample:
  "calculate_rsi None [5, 5] 2 = Inr [NaN, NaN]"
  by code_simp

text \<open>
  C2. Without TA-Lib, every position of the RSI is either NaN or a number between 0
  and 100; it is never infinite.
\<close>

theorem rsi_in_range:
  "\<exists>rsi. calculate_rsi None prices P = Inr rsi \<and>
     (\<forall>i<length rsi. rsi ! i = NaN \<or> (\<exists>v. rsi ! i = Fin v \<and> 0 \<le> v \<and> v \<le> 100))"
  by (simp add: calculate_rsi_def rsi_bounded)

theorem rsi_in_range_witness:
  "calculate_rsi None scenario_series 14 = Inr (calculate_rsi_fallback scenario_series 14) \<and>
   14 < length (calculate_rsi_fallback scenario_series 14) \<and>
   calculate_rsi_fallback scenario_series 14 ! 14 = Fin 80 \<and> (0::real) \<le> 80 \<and> (80::real) \<le> 100"
proof -
  have "calculate_rsi_fallback scenario_series 14 ! 14 = Fin 80"
    by code_simp
  then show ?thesis
    using rsi_in_range [of scenario_series 14]
    by (simp add: calculate_rsi_def scenario_series_def)
qed

text \<open>
  C3. Where the average loss of the window is exactly zero and the average gain is
  positive, the division \<^verbatim>\<open>gain / loss\<close> gives infinity instead of raising, and the
  RSI at that position is 100.
\<close>

theorem rsi_zero_loss:
  assumes "i < length prices"
    and "rsi_loss prices P ! i = Fin 0"
    and "rsi_gain prices P ! i = Fin g"
    and "0 < g"
  shows "\<exists>rsi. calculate_rsi None prices P = Inr rsi \<and> rsi ! i = Fin 100"
  using assms by (simp add: calculate_rsi_def calculate_rsi_fallback_nth fl_sub_def)

theorem rsi_zero_loss_witness:
  "2 < length [1, 2, 3 :: real] \<and> rsi_loss [1, 2, 3] 2 ! 2 = Fin 0 \<and>
   rsi_gain [1, 2, 3] 2 ! 2 = Fin 1 \<and> (0::real) < 1 \<and>
   (\<exists>rsi. calculate_rsi None [1, 2, 3] 2 = Inr rsi \<and> rsi ! 2 = Fin 100)"
proof -
  have l: "rsi_loss [1, 2, 3] 2 ! 2 = Fin 0" by code_simp
  have g: "rsi_gain [1, 2, 3] 2 ! 2 = Fin 1" by code_simp
  have n: "2 < length [1, 2, 3 :: real]" by simp
  from rsi_zero_loss [OF n l g] l g show ?thesis by simp
qed

section \<open>MACD\<close>

lemma length_ewm_loop [simp]: "length (ewm_loop a w xs) = length xs"
  by (induction xs arbitrary: w) (simp_all add: Let_def)

lemma length_ewm_mean [simp]: "length (ewm_mean n s) = length s"
  by (cases s) (simp_all add: ewm_mean_def)

lemma ewm_loop_step:
  "i < length xs \<Longrightarrow>
   ewm_loop a w xs ! i = (1 - a) * ((w # ewm_loop a w xs) ! i) + a * xs ! i"
proof (induction xs arbitrary: w i)
  case Nil
  then show ?case by simp
next
  case (Cons c rest)
  show ?case
  proof (cases i)
    case 0
    then show ?thesis by (simp add: Let_def)
  next
    case (Suc k)
    with Cons.prems have "k < length rest" by simp
    from Cons.IH [OF this] Suc show ?thesis by (simp add: Let_def)
  qed
qed

lemma ewm_mean_ref:
  "i < length s \<Longrightarrow> ewm_mean n s ! i = ema_ref (2 / (real n + 1)) s i"
proof (induction i)
  case 0
  then show ?case by (cases s) (simp_all add: ewm_mean_def)
next
  case (Suc i)
  then obtain x0 rest where s: "s = x0 # rest" by (cases s) auto
  with Suc.prems have i: "i < length rest" by simp
  have "ewm_mean n s ! Suc i = ewm_loop (2 / (real n + 1)) x0 rest ! i"
    by (simp add: s ewm_mean_def)
  also have "\<dots> = (1 - 2 / (real n + 1)) * (ewm_mean n s ! i) + 2 / (real n + 1) * rest ! i"
    using ewm_loop_step [OF i] by (simp add: s ewm_mean_def)
  also have "ewm_mean n s ! i = ema_ref (2 / (real n + 1)) s i"
    using Suc by simp
  finally show ?case by (simp add: s)
qed

lemma ewm_mean_12: "i < length s \<Longrightarrow> ewm_mean 12 s ! i = ema_ref (2 / (12 + 1)) s i"
  using ewm_mean_ref [of i s 12] by simp

lemma ewm_mean_26: "i < length s \<Longrightarrow> ewm_mean 26 s ! i = ema_ref (2 / (26 + 1)) s i"
  using ewm_mean_ref [of i s 26] by simp

lemma ewm_mean_9: "i < length s \<Longrightarrow> ewm_mean 9 s ! i = ema_ref (2 / (9 + 1)) s i"
  using ewm_mean_ref [of i s 9] by simp

lemma length_macd_ref [simp]: "length (macd_ref prices) = length prices"
  by (simp add: macd_ref_def)

lemma macd_line_eq:
  "map2 (-) (ewm_mean 12 prices) (ewm_mean 26 prices) = macd_ref prices"
proof (rule nth_equalityI)
  show "length (map2 (-) (ewm_mean 12 prices) (ewm_mean 26 prices)) = length (macd_ref prices)"
    by simp
next
  fix i assume "i < length (map2 (-) (ewm_mean 12 prices) (ewm_mean 26 prices))"
  then have i: "i < length prices" by simp
  then have "map2 (-) (ewm_mean 12 prices) (ewm_mean 26 prices) ! i =
             ewm_mean 12 prices ! i - ewm_mean 26 prices ! i"
    by simp
  also have "\<dots> = ema_ref (2 / (12 + 1)) prices i - ema_ref (2 / (26 + 1)) prices i"
    using i by (simp only: ewm_mean_12 ewm_mean_26)
  also have "\<dots> = macd_ref prices ! i"
    using i by (simp add: macd_ref_def)
  finally show "map2 (-) (ewm_mean 12 prices) (ewm_mean 26 prices) ! i = macd_ref prices ! i" .
qed

lemma macd_fallback_fields:
  "macd (calculate_macd_fallback prices) = map Fin (macd_ref prices)"
  "signal (calculate_macd_fallback prices) = map Fin (ewm_mean 9 (macd_ref prices))"
  "histogram (calculate_macd_fallback prices) =
     map Fin (map2 (-) (macd_ref prices) (ewm_mean 9 (macd_ref prices)))"
  unfolding calculate_macd_fallback_def Let_def macd_line_eq by simp_all

lemma macd_fallback_nth:
  assumes "i < length prices"
  shows "macd (calculate_macd_fallback prices) ! i = Fin (macd_ref prices ! i)"
    and "signal (calculate_macd_fallback prices) ! i = Fin (ema_ref (2 / (9 + 1)) (macd_ref prices) i)"
    and "histogram (calculate_macd_fallback prices) ! i =
           Fin (macd_ref prices ! i - ema_ref (2 / (9 + 1)) (macd_ref prices) i)"
proof -
  show "macd (calculate_macd_fallback prices) ! i = Fin (macd_ref prices ! i)"
    using assms by (simp add: macd_fallback_fields)
  have i: "i < length (macd_ref prices)" using assms by simp
  show "signal (calculate_macd_fallback prices) ! i = Fin (ema_ref (2 / (9 + 1)) (macd_ref prices) i)"
    using assms ewm_mean_9 [OF i] by (simp add: macd_fallback_fields)
  show "histogram (calculate_macd_fallback prices) ! i =
           Fin (macd_ref prices ! i - ema_ref (2 / (9 + 1)) (macd_ref prices) i)"
    using assms ewm_mean_9 [OF i] by (simp add: macd_fallback_fields)
qed

lemma macd_ref_nth:
  "i < length prices \<Longrightarrow>
   macd_ref prices ! i = ema_ref (2 / (12 + 1)) prices i - ema_ref (2 / (26 + 1)) prices i"
  by (simp add: macd_ref_def)

text \<open>
  C7. Without TA-Lib, the three outputs of \<^verbatim>\<open>calculate_macd\<close> are as long as the
  prices and defined at every position: the MACD line is the span-12 EMA minus the span-26
  EMA of the prices, the signal is the span-9 EMA of the MACD line, each EMA following the
  recurrence with \<open>\<alpha> = 2 / (span + 1)\<close> from position 0, and the histogram is the
  MACD line minus the signal.
\<close>

theorem macd_reference:
  "\<exists>r. calculate_macd None prices = Inr r \<and>
     length (macd r) = length prices \<and> length (signal r) = length prices \<and>
     length (histogram r) = length prices \<and>
     (\<forall>i<length prices.
        macd r ! i = Fin (ema_ref (2 / (12 + 1)) prices i - ema_ref (2 / (26 + 1)) prices i) \<and>
        macd r ! i = Fin (macd_ref prices ! i) \<and>
        signal r ! i = Fin (ema_ref (2 / (9 + 1)) (macd_ref prices) i) \<and>
        histogram r ! i = fl_sub (macd r ! i) (signal r ! i) \<and>
        histogram r ! i = Fin (macd_ref prices ! i - ema_ref (2 / (9 + 1)) (macd_ref prices) i))"
proof -
  let ?r = "calculate_macd_fallback prices"
  have ret: "calculate_macd None prices = Inr ?r"
    by (simp add: calculate_macd_def)
  have len: "length (macd ?r) = length prices" "length (signal ?r) = length prices"
    "length (histogram ?r) = length prices"
    by (simp_all add: macd_fallback_fields)
  have pos: "macd ?r ! i = Fin (ema_ref (2 / (12 + 1)) prices i - ema_ref (2 / (26 + 1)) prices i) \<and>
        macd ?r ! i = Fin (macd_ref prices ! i) \<and>
        signal ?r ! i = Fin (ema_ref (2 / (9 + 1)) (macd_ref prices) i) \<and>
        histogram ?r ! i = fl_sub (macd ?r ! i) (signal ?r ! i) \<and>
        histogram ?r ! i = Fin (macd_ref prices ! i - ema_ref (2 / (9 + 1)) (macd_ref prices) i)"
    if i: "i < length prices" for i
  proof -
    note n = macd_fallback_nth [OF i]
    have "fl_sub (macd ?r ! i) (signal ?r ! i) =
          Fin (macd_ref prices ! i - ema_ref (2 / (9 + 1)) (macd_ref prices) i)"
      unfolding n by (simp add: fl_sub_def)
    with n macd_ref_nth [OF i] show ?thesis by (simp only:)
  qed
  from ret len pos show ?thesis by blast
qed

theorem macd_reference_witness:
  "calculate_macd None [1, 2, 4] =
     Inr \<lparr>macd = [Fin 0, Fin (28 / 351), Fin (37072 / 123201)],
          signal = [Fin 0, Fin (28 / 1755), Fin (224672 / 3080025)],
          histogram = [Fin 0, Fin (112 / 1755), Fin (702128 / 3080025)]\<rparr> \<and>
   (2::nat) < length [1, 2, 4 :: real] \<and>
   ema_ref (2 / (12 + 1)) [1, 2, 4] 2 - ema_ref (2 / (26 + 1)) [1, 2, 4] 2 = 37072 / 123201 \<and>
   ema_ref (2 / (9 + 1)) (macd_ref [1, 2, 4]) 2 = 224672 / 3080025"
proof -
  have a: "calculate_macd None [1, 2, 4] =
     Inr \<lparr>macd = [Fin 0, Fin (28 / 351), Fin (37072 / 123201)],
          signal = [Fin 0, Fin (28 / 1755), Fin (224672 / 3080025)],
          histogram = [Fin 0, Fin (112 / 1755), Fin (702128 / 3080025)]\<rparr>"
    by code_simp
  have b: "ema_ref (2 / (12 + 1)) [1, 2, 4] 2 - ema_ref (2 / (26 + 1)) [1, 2, 4] 2 = 37072 / 123201"
    by code_simp
  have c: "ema_ref (2 / (9 + 1)) (macd_ref [1, 2, 4]) 2 = 224672 / 3080025"
    by code_simp
  have d: "(2::nat) < length [1, 2, 4 :: real]" by simp
  from macd_reference [of "[1, 2, 4]"] a b c d show ?thesis by blast
qed

lemma rolling_std_Fin_nth:
  assumes "i < length xs"
  shows "rolling_std w (map Fin xs) ! i =
         (if 2 \<le> w \<and> w \<le> Suc i then Fin (sqrt (window_var w xs i)) else NaN)"
proof -
  have len: "length (window_at w xs i) = min w (Suc i)"
    using assms by (rule length_window_at)
  have nonneg: "0 \<le> window_var w xs i"
    unfolding window_var_def by (intro divide_nonneg_nonneg sum_list_nonneg) auto
  have "rolling_std w (map Fin xs) ! i = fl_sqrt (calc_var w 1 (window_at w xs i))"
    using assms by (simp add: rolling_std_def window_at_map)
  also have "calc_var w 1 (window_at w xs i) =
             (if 2 \<le> w \<and> w \<le> Suc i then Fin (window_var w xs i) else NaN)"
    by (auto simp: calc_var_def len Let_def min_def window_var_def window_mean_def)
  finally show ?thesis using nonneg by simp
qed

section \<open>Bollinger Bands\<close>

lemma window_var_nonneg: "0 \<le> window_var w xs i"
  unfolding window_var_def by (intro divide_nonneg_nonneg sum_list_nonneg) auto

lemma rolling_mean_window_mean:
  "i < length xs \<Longrightarrow>
   rolling_mean w (map Fin xs) ! i = (if 0 < w \<and> w \<le> Suc i then Fin (window_mean w xs i) else NaN)"
  by (simp add: rolling_mean_Fin_nth window_mean_def)

lemma bollinger_fields_nth:
  assumes "i < length prices"
  shows "middle (calculate_bollinger_bands_fallback prices period k) ! i =
           rolling_mean period (map Fin prices) ! i"
    and "upper (calculate_bollinger_bands_fallback prices period k) ! i =
           fl_add (rolling_mean period (map Fin prices) ! i)
                  (fl_mul (rolling_std period (map Fin prices) ! i) (Fin k))"
    and "lower (calculate_bollinger_bands_fallback prices period k) ! i =
           fl_sub (rolling_mean period (map Fin prices) ! i)
                  (fl_mul (rolling_std period (map Fin prices) ! i) (Fin k))"
  using assms by (simp_all add: calculate_bollinger_bands_fallback_def Let_def)

lemma bollinger_lengths [simp]:
  "length (middle (calculate_bollinger_bands_fallback prices period k)) = length prices"
  "length (upper (calculate_bollinger_bands_fallback prices period k)) = length prices"
  "length (lower (calculate_bollinger_bands_fallback prices period k)) = length prices"
  by (simp_all add: calculate_bollinger_bands_fallback_def Let_def)

lemma bollinger_warm:
  assumes "i < length prices" "2 \<le> period" "period \<le> Suc i"
  shows "middle (calculate_bollinger_bands_fallback prices period k) ! i =
           Fin (window_mean period prices i)"
    and "upper (calculate_bollinger_bands_fallback prices period k) ! i =
           Fin (window_mean period prices i + sqrt (window_var period prices i) * k)"
    and "lower (calculate_bollinger_bands_fallback prices period k) ! i =
           Fin (window_mean period prices i - sqrt (window_var period prices i) * k)"
  using assms
  by (simp_all add: bollinger_fields_nth rolling_mean_window_mean rolling_std_Fin_nth fl_sub_def)

lemma bollinger_cold:
  assumes "i < length prices" "period = 0 \<or> Suc i < period"
  shows "middle (calculate_bollinger_bands_fallback prices period k) ! i = NaN"
    and "upper (calculate_bollinger_bands_fallback prices period k) ! i = NaN"
    and "lower (calculate_bollinger_bands_fallback prices period k) ! i = NaN"
  using assms
  by (auto simp: bollinger_fields_nth rolling_mean_window_mean rolling_std_Fin_nth fl_sub_def)

lemma bollinger_single_window:
  assumes "i < length prices"
  shows "middle (calculate_bollinger_bands_fallback prices 1 k) ! i = Fin (prices ! i)"
    and "upper (calculate_bollinger_bands_fallback prices 1 k) ! i = NaN"
    and "lower (calculate_bollinger_bands_fallback prices 1 k) ! i = NaN"
  using assms
  by (simp_all add: bollinger_fields_nth rolling_mean_window_mean rolling_std_Fin_nth fl_sub_def
      window_mean_def window_at_conv)

text \<open>
  The claim as first stated fails for period 1: the window holds one close, its sample
  standard deviation (\<^verbatim>\<open>ddof=1\<close>) is NaN, so the upper and the lower band are NaN
  where the middle band is the close itself.
\<close>

theorem bollinger_period_1_counterexample:
  "calculate_bollinger_bands None [1] 1 2 = Inr \<lparr>upper = [NaN], middle = [Fin 1], lower = [NaN]\<rparr>"
  by (simp add: calculate_bollinger_bands_def calculate_bollinger_bands_fallback_def
      rolling_mean_def rolling_std_def window_at_def calc_mean_def calc_var_def fl_sub_def Let_def)

text \<open>
  C8 (as amended). Without TA-Lib and with a multiplier that is not negative: for a period
  other than 1, at every position the three bands are either all NaN or all numbers with
  lower \<open>\<le>\<close> middle \<open>\<le>\<close> upper; for period 1 the middle band is the close and the upper
  and lower bands are NaN at every position.
\<close>

theorem bollinger_bands_order:
  assumes "0 \<le> std_dev"
  shows "\<exists>bb. calculate_bollinger_bands None prices period std_dev = Inr bb \<and>
     length (upper bb) = length prices \<and> length (middle bb) = length prices \<and>
     length (lower bb) = length prices \<and>
     (\<forall>i<length prices.
        (period \<noteq> 1 \<longrightarrow>
           (upper bb ! i = NaN \<and> middle bb ! i = NaN \<and> lower bb ! i = NaN) \<or>
           (\<exists>u m l. upper bb ! i = Fin u \<and> middle bb ! i = Fin m \<and> lower bb ! i = Fin l \<and>
                    l \<le> m \<and> m \<le> u)) \<and>
        (period = 1 \<longrightarrow>
           upper bb ! i = NaN \<and> middle bb ! i = Fin (prices ! i) \<and> lower bb ! i = NaN))"
proof -
  let ?bb = "calculate_bollinger_bands_fallback prices period std_dev"
  have ret: "calculate_bollinger_bands None prices period std_dev = Inr ?bb"
    by (simp add: calculate_bollinger_bands_def)
  have one: "upper ?bb ! i = NaN \<and> middle ?bb ! i = Fin (prices ! i) \<and> lower ?bb ! i = NaN"
    if "i < length prices" "period = 1" for i
    using that bollinger_single_window [of i prices std_dev] by simp
  have other: "(upper ?bb ! i = NaN \<and> middle ?bb ! i = NaN \<and> lower ?bb ! i = NaN) \<or>
           (\<exists>u m l. upper ?bb ! i = Fin u \<and> middle ?bb ! i = Fin m \<and> lower ?bb ! i = Fin l \<and>
                    l \<le> m \<and> m \<le> u)"
    if i: "i < length prices" and p: "period \<noteq> 1" for i
  proof (cases "2 \<le> period \<and> period \<le> Suc i")
    case True
    then have w: "2 \<le> period" "period \<le> Suc i" by simp_all
    have "0 \<le> sqrt (window_var period prices i) * std_dev"
      using assms by (simp add: window_var_nonneg)
    then show ?thesis
      by (simp add: bollinger_warm [OF i w])
  next
    case False
    with p have "period = 0 \<or> Suc i < period" by arith
    then show ?thesis
      by (simp add: bollinger_cold [OF i])
  qed
  from ret one other show ?thesis
    by (intro exI [of _ ?bb]) simp
qed

theorem bollinger_bands_order_witness:
  "(0::real) \<le> 2 \<and> (1::nat) < length [1, 3 :: real] \<and> (2::nat) \<noteq> 1 \<and>
   calculate_bollinger_bands None [1, 3] 2 2 =
     Inr \<lparr>upper = [NaN, Fin (2 + sqrt 2 * 2)], middle = [NaN, Fin 2],
          lower = [NaN, Fin (2 - sqrt 2 * 2)]\<rparr> \<and>
   2 - sqrt 2 * 2 \<le> (2::real) \<and> (2::real) \<le> 2 + sqrt 2 * 2"
proof -
  have "calculate_bollinger_bands None [1, 3] 2 2 =
     Inr \<lparr>upper = [NaN, Fin (2 + sqrt 2 * 2)], middle = [NaN, Fin 2],
          lower = [NaN, Fin (2 - sqrt 2 * 2)]\<rparr>"
    by (simp add: calculate_bollinger_bands_def calculate_bollinger_bands_fallback_def
      rolling_mean_def rolling_std_def window_at_def calc_mean_def calc_var_def fl_sub_def
      power2_eq_square)
  then show ?thesis
    using bollinger_bands_order [of 2 "[1, 3]" 2] by simp
qed

section \<open>Volume spike ratio\<close>

lemma volume_analysis_nonempty:
  "volumes \<noteq> [] \<Longrightarrow>
   volume_analysis volumes =
     Inr (last volumes, series_mean volumes,
          if 0 < series_mean volumes then last volumes / series_mean volumes else 0)"
  by (simp add: volume_analysis_def iloc_last_def py_div_def Let_def)

lemma get_indicators_body_volume:
  assumes "get_indicators_body e ticker hist = Inr r" "hist \<noteq> []"
  shows "ind_volume_current r = last (map Volume hist) \<and>
         ind_volume_average r = series_mean (map Volume hist) \<and>
         ind_volume_spike_ratio r =
           (if 0 < series_mean (map Volume hist)
            then last (map Volume hist) / series_mean (map Volume hist) else 0)"
  using assms
  by (auto simp: get_indicators_body_def volume_analysis_nonempty Let_def split: sum.splits)

text \<open>
  C9. The volume analysis never raises a division by zero. On a non-empty volume series
  the ratio is the latest volume divided by the mean when the mean is positive and 0
  otherwise (so 0 when the mean is zero); the answer of \<^verbatim>\<open>get_indicators\<close> carries
  that ratio.
\<close>

theorem volume_ratio_guarded:
  "volume_analysis volumes \<noteq> Inl ZeroDivisionError \<and>
   (volumes \<noteq> [] \<longrightarrow>
      volume_analysis volumes =
        Inr (last volumes, series_mean volumes,
             if 0 < series_mean volumes then last volumes / series_mean volumes else 0)) \<and>
   (\<forall>r. get_indicators e ticker = Inr r \<longrightarrow>
      ind_volume_spike_ratio r =
        (if 0 < ind_volume_average r then ind_volume_current r / ind_volume_average r else 0))"
proof -
  have a: "volume_analysis volumes \<noteq> Inl ZeroDivisionError"
    by (cases "volumes = []") (simp_all add: volume_analysis_nonempty, simp add: volume_analysis_def iloc_last_def)
  have b: "ind_volume_spike_ratio r =
        (if 0 < ind_volume_average r then ind_volume_current r / ind_volume_average r else 0)"
    if "get_indicators e ticker = Inr r" for r
  proof -
    from that obtain hist where h: "hist \<noteq> []" "get_indicators_body e ticker hist = Inr r"
      by (auto simp: get_indicators_def Let_def split: sum.splits if_splits)
    from get_indicators_body_volume [OF h(2) h(1)] show ?thesis by simp
  qed
  from a b show ?thesis by (simp add: volume_analysis_nonempty)
qed

theorem volume_ratio_guarded_witness:
  "volume_analysis [0, 0] = Inr (0, 0, 0) \<and> volume_analysis scenario_volumes = Inr (28, 14, 2) \<and>
   [0, 0 :: real] \<noteq> [] \<and> scenario_volumes \<noteq> []"
proof -
  have a: "volume_analysis [0, 0] = Inr (0, 0, 0)" by code_simp
  have b: "volume_analysis scenario_volumes = Inr (28, 14, 2)" by code_simp
  have c: "scenario_volumes \<noteq> []" by (simp add: scenario_volumes_def)
  from a b c volume_ratio_guarded [of "[0, 0]"] show ?thesis by simp
qed

section \<open>Screener\<close>

lemma screener_loop_acc:
  "screener_loop e lo hi th ts acc = acc @ admitted_matches e lo hi th ts"
  by (induction ts arbitrary: acc)
    (simp_all add: admitted_matches_def admitted_def split: sum.splits option.splits)

lemma screener_loop_admitted:
  "screener_loop e lo hi th ts [] = admitted_matches e lo hi th ts"
  by (simp add: screener_loop_acc)

lemma admitted_matches_append:
  "admitted_matches e lo hi th (xs @ ys) =
   admitted_matches e lo hi th xs @ admitted_matches e lo hi th ys"
  by (simp add: admitted_matches_def)

lemma admitted_matches_Cons:
  "admitted_matches e lo hi th (t # ts) = admitted e lo hi th t @ admitted_matches e lo hi th ts"
  by (simp add: admitted_matches_def)

lemma set_admitted:
  "m \<in> set (admitted e lo hi th t) \<longleftrightarrow> screen_ticker e lo hi th t = Inr (Some m)"
  by (auto simp: admitted_def split: sum.splits option.splits)

lemma set_admitted_matches:
  "m \<in> set (admitted_matches e lo hi th ts) \<longleftrightarrow>
   (\<exists>t\<in>set ts. screen_ticker e lo hi th t = Inr (Some m))"
  by (auto simp: admitted_matches_def set_admitted)

lemma screen_ticker_Some:
  assumes "screen_ticker e lo hi th t = Inr (Some m)"
  shows "m_ticker m = t"
    and "m_score m = (100 - \<bar>50 - m_rsi m\<bar>) + (m_volume_spike m * 10)"
    and "\<not> ticker_fails e t"
  using assms
  by (auto simp: screen_ticker_def ticker_fails_def Let_def iloc_last_def
      split: sum.splits if_splits fl.splits prod.splits)

lemma screen_ticker_retrieved:
  assumes "yf_history e (t @ ''.OL'') ''3mo'' = Inr hist" "hist \<noteq> []"
    and "calculate_rsi (talib e) (map Close hist) 14 = Inr rsi"
    and "iloc_last rsi = Inr latest_rsi"
    and "volume_analysis (map Volume hist) = Inr (lv, av, vol_spike)"
  shows "screen_ticker e lo hi th t =
         (if fl_le (Fin lo) latest_rsi \<and> fl_le latest_rsi (Fin hi) \<and> th \<le> vol_spike
          then (case latest_rsi of
                  Fin r \<Rightarrow> Inr (Some \<lparr>m_ticker = t, m_price = last (map Close hist), m_rsi = r,
                                      m_volume_spike = vol_spike,
                                      m_score = (100 - \<bar>50 - r\<bar>) + (vol_spike * 10)\<rparr>)
                | _ \<Rightarrow> Inr None)
          else Inr None)"
  using assms by (simp add: screen_ticker_def Let_def)


lemma length_sort_reverse [simp]: "length (sort_reverse k xs) = length xs"
  by (simp add: sort_reverse_def)

lemma set_sort_reverse [simp]: "set (sort_reverse k xs) = set xs"
  by (simp add: sort_reverse_def)

lemma sort_reverse_sorted: "sorted_wrt (\<lambda>a b. k b \<le> k a) (sort_reverse k xs)"
proof -
  have "sorted (map k (sort_key k (rev xs)))" by simp
  then have "sorted_wrt (\<lambda>x y. k x \<le> k y) (sort_key k (rev xs))"
    by (simp only: sorted_map)
  then show ?thesis
    by (simp add: sort_reverse_def sorted_wrt_rev)
qed

lemma sort_reverse_stable:
  "filter (\<lambda>y. k y = c) (sort_reverse k xs) = filter (\<lambda>y. k y = c) xs"
proof -
  have "filter (\<lambda>y. k y = c) (sort_reverse k xs) =
        rev (filter (\<lambda>y. k y = c) (sort_key k (rev xs)))"
    by (simp add: sort_reverse_def rev_filter)
  also have "\<dots> = rev (filter (\<lambda>y. k y = c) (rev xs))"
    by (simp only: sort_key_stable)
  also have "\<dots> = filter (\<lambda>y. k y = c) xs"
    by (simp add: rev_filter)
  finally show ?thesis .
qed

lemma report_fields:
  "results (screener_report e lo hi th ts) =
     take 10 (sort_reverse m_score (admitted_matches e lo hi th ts))"
  "total_scanned (screener_report e lo hi th ts) = length ts"
  "matches (screener_report e lo hi th ts) = length (admitted_matches e lo hi th ts)"
  by (simp_all add: screener_report_def Let_def screener_loop_admitted)

lemma admitted_tickers:
  "map m_ticker (admitted_matches e lo hi th ts) = filter (\<lambda>t. admitted e lo hi th t \<noteq> []) ts"
proof (induction ts)
  case Nil
  then show ?case by (simp add: admitted_matches_def)
next
  case (Cons t ts)
  have "map m_ticker (admitted e lo hi th t) = (if admitted e lo hi th t \<noteq> [] then [t] else [])"
    by (auto simp: admitted_def dest: screen_ticker_Some(1) split: sum.splits option.splits)
  with Cons show ?case
    by (simp add: admitted_matches_Cons)
qed

text \<open>
  C5. The answer of a screener run holds at most 10 results and at most as many as there
  are admitted matches, all of them admitted matches, sorted by score in descending order;
  the results of any one score are a prefix of the admitted matches of that score in the
  order the loop appended them, which is the order of their tickers in the request;
  \<^verbatim>\<open>total_scanned\<close> is the number of tickers of the request and \<^verbatim>\<open>matches\<close> the
  number of admitted matches before truncation.
\<close>

theorem screener_report_shape:
  "length (results (screener_report e lo hi th tickers)) \<le> 10 \<and>
   length (results (screener_report e lo hi th tickers))
     \<le> length (admitted_matches e lo hi th tickers) \<and>
   set (results (screener_report e lo hi th tickers)) \<subseteq> set (admitted_matches e lo hi th tickers) \<and>
   sorted_wrt (\<lambda>a b. m_score b \<le> m_score a) (results (screener_report e lo hi th tickers)) \<and>
   prefix (filter (\<lambda>m. m_score m = c) (results (screener_report e lo hi th tickers)))
          (filter (\<lambda>m. m_score m = c) (admitted_matches e lo hi th tickers)) \<and>
   subseq (map m_ticker (admitted_matches e lo hi th tickers)) tickers \<and>
   total_scanned (screener_report e lo hi th tickers) = length tickers \<and>
   matches (screener_report e lo hi th tickers) = length (admitted_matches e lo hi th tickers) \<and>
   screener_loop e lo hi th tickers [] = admitted_matches e lo hi th tickers"
proof -
  let ?adm = "admitted_matches e lo hi th tickers"
  let ?sorted = "sort_reverse m_score ?adm"
  have r: "results (screener_report e lo hi th tickers) = take 10 ?sorted"
    by (rule report_fields)
  have a: "length (take 10 ?sorted) \<le> 10" by simp
  have b: "length (take 10 ?sorted) \<le> length ?adm" by simp
  have c: "set (take 10 ?sorted) \<subseteq> set ?adm"
    using set_take_subset [of 10 ?sorted] by simp
  have d: "sorted_wrt (\<lambda>a b. m_score b \<le> m_score a) (take 10 ?sorted)"
    by (intro sorted_wrt_take sort_reverse_sorted)
  have "prefix (filter (\<lambda>m. m_score m = c) (take 10 ?sorted)) (filter (\<lambda>m. m_score m = c) ?sorted)"
    by (intro filter_mono_prefix take_is_prefix)
  then have f: "prefix (filter (\<lambda>m. m_score m = c) (take 10 ?sorted)) (filter (\<lambda>m. m_score m = c) ?adm)"
    by (simp only: sort_reverse_stable)
  have g: "subseq (map m_ticker ?adm) tickers"
    by (simp add: admitted_tickers)
  from a b c d f g show ?thesis
    by (simp only: r report_fields screener_loop_admitted)
qed



text \<open>
  Twelve admitted tickers with \<^verbatim>\<open>rsi_max\<close> 90: the six matches of A (score 115) come
  first, then the first four of the six matches of B (score 90).
\<close>

theorem screener_report_shape_witness:
  "screener_report scenario_env 30 90 1.5
     [''B'', ''A'', ''B'', ''A'', ''B'', ''A'', ''B'', ''A'', ''B'', ''A'', ''B'', ''A''] =
   \<lparr>results =
      replicate 6 \<lparr>m_ticker = ''A'', m_price = 98, m_rsi = 45, m_volume_spike = 2, m_score = 115\<rparr> @
      replicate 4 \<lparr>m_ticker = ''B'', m_price = 103, m_rsi = 80, m_volume_spike = 2, m_score = 90\<rparr>,
    total_scanned = 12, matches = 12\<rparr>"
proof -
  have "screener_report scenario_env 30 90 1.5
     [''B'', ''A'', ''B'', ''A'', ''B'', ''A'', ''B'', ''A'', ''B'', ''A'', ''B'', ''A''] =
   \<lparr>results =
      replicate 6 \<lparr>m_ticker = ''A'', m_price = 98, m_rsi = 45, m_volume_spike = 2, m_score = 115\<rparr> @
      replicate 4 \<lparr>m_ticker = ''B'', m_price = 103, m_rsi = 80, m_volume_spike = 2, m_score = 90\<rparr>,
    total_scanned = 12, matches = 12\<rparr>"
    by code_simp
  with screener_report_shape [of scenario_env 30 90 "1.5"
      "[''B'', ''A'', ''B'', ''A'', ''B'', ''A'', ''B'', ''A'', ''B'', ''A'', ''B'', ''A'']" 115]
  show ?thesis by blast
qed

text \<open>
  C4. A ticker of the request whose history was retrieved, is not empty and gave a latest
  RSI and a volume-spike ratio has a match in the run exactly when
  \<open>rsi_min \<le> latest RSI \<le> rsi_max\<close> and the ratio reaches the threshold; every match
  has the score \<open>(100 - |50 - rsi|) + volume_spike * 10\<close> and carries the RSI and the
  ratio of its ticker. In the two-ticker scenario only A is admitted, with score 115, and
  \<^verbatim>\<open>total_scanned\<close> is 2.
\<close>

theorem screener_admission:
  assumes "t \<in> set tickers"
    and "yf_history e (t @ ''.OL'') ''3mo'' = Inr hist" and "hist \<noteq> []"
    and "calculate_rsi (talib e) (map Close hist) 14 = Inr rsi"
    and "iloc_last rsi = Inr latest_rsi"
    and "volume_analysis (map Volume hist) = Inr (lv, av, vol_spike)"
  shows "((\<exists>m\<in>set (screener_loop e rsi_min rsi_max th tickers []). m_ticker m = t) \<longleftrightarrow>
            fl_le (Fin rsi_min) latest_rsi \<and> fl_le latest_rsi (Fin rsi_max) \<and> th \<le> vol_spike) \<and>
         (\<forall>m\<in>set (screener_loop e rsi_min rsi_max th tickers []).
            m_score m = (100 - \<bar>50 - m_rsi m\<bar>) + (m_volume_spike m * 10)) \<and>
         (\<forall>m\<in>set (screener_loop e rsi_min rsi_max th tickers []).
            m_ticker m = t \<longrightarrow> latest_rsi = Fin (m_rsi m) \<and> m_volume_spike m = vol_spike) \<and>
         run_screener scenario_env (Some scenario_request) =
           Inr \<lparr>results = [\<lparr>m_ticker = ''A'', m_price = 98, m_rsi = 45, m_volume_spike = 2,
                             m_score = 115\<rparr>],
                total_scanned = 2, matches = 1\<rparr>"
proof -
  let ?crit = "fl_le (Fin rsi_min) latest_rsi \<and> fl_le latest_rsi (Fin rsi_max) \<and> th \<le> vol_spike"
  note st = screen_ticker_retrieved [OF assms(2-6), of rsi_min rsi_max th]
  have own: "screen_ticker e rsi_min rsi_max th t = Inr (Some m) \<Longrightarrow>
             ?crit \<and> latest_rsi = Fin (m_rsi m) \<and> m_volume_spike m = vol_spike" for m
    unfolding st by (cases latest_rsi) (auto split: if_splits)
  have adm: "?crit \<Longrightarrow> \<exists>m. screen_ticker e rsi_min rsi_max th t = Inr (Some m)"
    unfolding st by (cases latest_rsi) auto
  have a: "(\<exists>m\<in>set (screener_loop e rsi_min rsi_max th tickers []). m_ticker m = t) \<longleftrightarrow> ?crit"
  proof
    assume "\<exists>m\<in>set (screener_loop e rsi_min rsi_max th tickers []). m_ticker m = t"
    then obtain m t' where m: "screen_ticker e rsi_min rsi_max th t' = Inr (Some m)" "m_ticker m = t"
      by (auto simp: screener_loop_admitted set_admitted_matches)
    from screen_ticker_Some(1) [OF m(1)] m(2) have "t' = t" by simp
    with m(1) own show ?crit by blast
  next
    assume ?crit
    with adm obtain m where m: "screen_ticker e rsi_min rsi_max th t = Inr (Some m)" by blast
    with assms(1) have "m \<in> set (screener_loop e rsi_min rsi_max th tickers [])"
      by (auto simp: screener_loop_admitted set_admitted_matches)
    with screen_ticker_Some(1) [OF m]
    show "\<exists>m\<in>set (screener_loop e rsi_min rsi_max th tickers []). m_ticker m = t" by blast
  qed
  have b: "\<forall>m\<in>set (screener_loop e rsi_min rsi_max th tickers []).
            m_score m = (100 - \<bar>50 - m_rsi m\<bar>) + (m_volume_spike m * 10)"
    by (auto simp: screener_loop_admitted set_admitted_matches dest: screen_ticker_Some(2))
  have c: "\<forall>m\<in>set (screener_loop e rsi_min rsi_max th tickers []).
            m_ticker m = t \<longrightarrow> latest_rsi = Fin (m_rsi m) \<and> m_volume_spike m = vol_spike"
  proof (intro ballI impI)
    fix m assume "m \<in> set (screener_loop e rsi_min rsi_max th tickers [])" and mt: "m_ticker m = t"
    then obtain t' where m: "screen_ticker e rsi_min rsi_max th t' = Inr (Some m)"
      by (auto simp: screener_loop_admitted set_admitted_matches)
    from screen_ticker_Some(1) [OF m] mt have "t' = t" by simp
    with m own show "latest_rsi = Fin (m_rsi m) \<and> m_volume_spike m = vol_spike" by blast
  qed
  have d: "run_screener scenario_env (Some scenario_request) =
           Inr \<lparr>results = [\<lparr>m_ticker = ''A'', m_price = 98, m_rsi = 45, m_volume_spike = 2,
                             m_score = 115\<rparr>],
                total_scanned = 2, matches = 1\<rparr>"
    by code_simp
  from a b c d show ?thesis by blast
qed

theorem screener_admission_witness:
  "''A'' \<in> set [''A'', ''B''] \<and>
   yf_history scenario_env (''A'' @ ''.OL'') ''3mo'' = Inr scenario_rows_A \<and>
   scenario_rows_A \<noteq> [] \<and>
   calculate_rsi (talib scenario_env) (map Close scenario_rows_A) 14 =
     Inr (calculate_rsi_fallback (map Close scenario_rows_A) 14) \<and>
   iloc_last (calculate_rsi_fallback (map Close scenario_rows_A) 14) = Inr (Fin 45) \<and>
   volume_analysis (map Volume scenario_rows_A) = Inr (28, 14, 2) \<and>
   fl_le (Fin 30) (Fin 45) \<and> fl_le (Fin 45) (Fin 70) \<and> (1.5::real) \<le> 2 \<and>
   (\<exists>m\<in>set (screener_loop scenario_env 30 70 1.5 [''A'', ''B''] []). m_ticker m = ''A'')"
proof -
  have h1: "''A'' \<in> set [''A'', ''B'']" by simp
  have h2: "yf_history scenario_env (''A'' @ ''.OL'') ''3mo'' = Inr scenario_rows_A"
    by (simp add: scenario_env_def)
  have h3: "scenario_rows_A \<noteq> []" by (simp add: scenario_rows_A_def rows_def scenario_volumes_def)
  have h4: "calculate_rsi (talib scenario_env) (map Close scenario_rows_A) 14 =
     Inr (calculate_rsi_fallback (map Close scenario_rows_A) 14)"
    by (simp add: scenario_env_def calculate_rsi_def)
  have h5: "iloc_last (calculate_rsi_fallback (map Close scenario_rows_A) 14) = Inr (Fin 45)"
    by code_simp
  have h6: "volume_analysis (map Volume scenario_rows_A) = Inr (28, 14, 2)"
    by code_simp
  have c: "fl_le (Fin 30) (Fin 45) \<and> fl_le (Fin 45) (Fin 70) \<and> (1.5::real) \<le> 2" by simp
  from screener_admission [OF h1 h2 h3 h4 h5 h6, of 30 70 "1.5"] c
  have "\<exists>m\<in>set (screener_loop scenario_env 30 70 1.5 [''A'', ''B''] []). m_ticker m = ''A''"
    by blast
  with h1 h2 h3 h4 h5 h6 c show ?thesis by blast
qed

lemma ticker_fails_admitted: "ticker_fails e t \<Longrightarrow> admitted e lo hi th t = []"
  by (auto simp: admitted_def dest: screen_ticker_Some(3) split: sum.splits option.splits)

lemma admitted_matches_filter_fails:
  "admitted_matches e lo hi th (filter (\<lambda>t. \<not> ticker_fails e t) ts) =
   admitted_matches e lo hi th ts"
  by (induction ts) (simp_all add: admitted_matches_Cons ticker_fails_admitted admitted_matches_def)

lemma results_subset_admitted:
  "m \<in> set (results (screener_report e lo hi th ts)) \<Longrightarrow>
   m \<in> set (admitted_matches e lo hi th ts)"
  using set_take_subset [of 10 "sort_reverse m_score (admitted_matches e lo hi th ts)"]
  by (auto simp: report_fields)

text \<open>
  C6. A screener run on a JSON request always answers with a report, never with the
  batch-level error. A ticker whose retrieval raises, whose history is empty or whose RSI
  computation raises adds no match, appears in no result, and leaves the matches of the
  tickers before and after it as they are: the results and the match count are those of
  the run on the request without the failing tickers, and \<^verbatim>\<open>total_scanned\<close> still
  counts every ticker.
\<close>

theorem screener_isolation:
  "(\<exists>rep. run_screener e (Some d) = Inr rep) \<and>
   (ticker_fails e t \<longrightarrow>
      admitted e lo hi th t = [] \<and>
      screener_loop e lo hi th (before @ t # after) [] =
        screener_loop e lo hi th before [] @ screener_loop e lo hi th after [] \<and>
      (\<forall>m\<in>set (results (screener_report e lo hi th tickers)). m_ticker m \<noteq> t)) \<and>
   results (screener_report e lo hi th tickers) =
     results (screener_report e lo hi th (filter (\<lambda>t. \<not> ticker_fails e t) tickers)) \<and>
   matches (screener_report e lo hi th tickers) =
     matches (screener_report e lo hi th (filter (\<lambda>t. \<not> ticker_fails e t) tickers)) \<and>
   total_scanned (screener_report e lo hi th tickers) = length tickers"
proof -
  have a: "\<exists>rep. run_screener e (Some d) = Inr rep"
    by (simp add: run_screener_def Let_def)
  have b: "admitted e lo hi th t = [] \<and>
      screener_loop e lo hi th (before @ t # after) [] =
        screener_loop e lo hi th before [] @ screener_loop e lo hi th after [] \<and>
      (\<forall>m\<in>set (results (screener_report e lo hi th tickers)). m_ticker m \<noteq> t)"
    if f: "ticker_fails e t"
  proof (intro conjI ballI)
    show "admitted e lo hi th t = []" using f by (rule ticker_fails_admitted)
    then show "screener_loop e lo hi th (before @ t # after) [] =
        screener_loop e lo hi th before [] @ screener_loop e lo hi th after []"
      by (simp add: screener_loop_admitted admitted_matches_append admitted_matches_Cons)
    fix m assume "m \<in> set (results (screener_report e lo hi th tickers))"
    then have "m \<in> set (admitted_matches e lo hi th tickers)"
      by (rule results_subset_admitted)
    then obtain t' where "screen_ticker e lo hi th t' = Inr (Some m)"
      by (auto simp: set_admitted_matches)
    from screen_ticker_Some(1) [OF this] screen_ticker_Some(3) [OF this] f
    show "m_ticker m \<noteq> t" by auto
  qed
  have c: "results (screener_report e lo hi th tickers) =
     results (screener_report e lo hi th (filter (\<lambda>t. \<not> ticker_fails e t) tickers))"
    "matches (screener_report e lo hi th tickers) =
     matches (screener_report e lo hi th (filter (\<lambda>t. \<not> ticker_fails e t) tickers))"
    "total_scanned (screener_report e lo hi th tickers) = length tickers"
    by (simp_all add: report_fields admitted_matches_filter_fails)
  from a b c show ?thesis by blast
qed

theorem screener_isolation_witness:
  "ticker_fails scenario_env ''X'' \<and>
   screener_report scenario_env 30 70 1.5 [''A'', ''X'', ''C'', ''B'', ''A''] =
     \<lparr>results = [\<lparr>m_ticker = ''A'', m_price = 98, m_rsi = 45, m_volume_spike = 2, m_score = 115\<rparr>,
                 \<lparr>m_ticker = ''A'', m_price = 98, m_rsi = 45, m_volume_spike = 2, m_score = 115\<rparr>],
      total_scanned = 5, matches = 2\<rparr> \<and>
   screener_loop scenario_env 30 70 1.5 ([''A''] @ ''X'' # [''C'', ''B'', ''A'']) [] =
     screener_loop scenario_env 30 70 1.5 [''A''] [] @
     screener_loop scenario_env 30 70 1.5 [''C'', ''B'', ''A''] []"
proof -
  have f: "ticker_fails scenario_env ''X''"
    by (simp add: ticker_fails_def scenario_env_def)
  have r: "screener_report scenario_env 30 70 1.5 [''A'', ''X'', ''C'', ''B'', ''A''] =
     \<lparr>results = [\<lparr>m_ticker = ''A'', m_price = 98, m_rsi = 45, m_volume_spike = 2, m_score = 115\<rparr>,
                 \<lparr>m_ticker = ''A'', m_price = 98, m_rsi = 45, m_volume_spike = 2, m_score = 115\<rparr>],
      total_scanned = 5, matches = 2\<rparr>"
    by code_simp
  from screener_isolation [of scenario_env scenario_request "''X''" 30 70 "1.5" "[''A'']"
      "[''C'', ''B'', ''A'']" "[''A'', ''X'', ''C'', ''B'', ''A'']"] f r
  show ?thesis by blast
qed

lemma calculate_rsi_fallback_Nil_iff:
  "calculate_rsi_fallback prices P = [] \<longleftrightarrow> prices = []"
  by (metis length_0_conv length_calculate_rsi_fallback)

lemma last_rsi_short:
  assumes "prices \<noteq> []" "length prices < P"
  shows "last (calculate_rsi_fallback prices P) = NaN"
proof -
  have "calculate_rsi_fallback prices P \<noteq> []"
    using assms(1) by (simp add: calculate_rsi_fallback_Nil_iff)
  then have "last (calculate_rsi_fallback prices P) =
             calculate_rsi_fallback prices P ! (length prices - 1)"
    by (simp add: last_conv_nth)
  also have "\<dots> = NaN"
  proof (rule rsi_cold_nth)
    from assms(1) have "0 < length prices" by simp
    then show "length prices - 1 < length prices" by simp
    from \<open>0 < length prices\<close> assms(2) show "\<not> (0 < P \<and> P \<le> Suc (length prices - 1))"
      by simp
  qed
  finally show ?thesis .
qed

text \<open>
  C10. Without TA-Lib, a ticker with a non-empty history whose latest RSI is NaN, as it is
  for a history shorter than the period 14, goes through the loop body without an
  exception and without a match, appears in no result, and is counted in
  \<^verbatim>\<open>total_scanned\<close>.
\<close>

theorem undefined_rsi_not_admitted:
  assumes "talib e = None"
    and "yf_history e (t @ ''.OL'') ''3mo'' = Inr hist" and "hist \<noteq> []"
    and "length hist < 14 \<or> last (calculate_rsi_fallback (map Close hist) 14) = NaN"
  shows "screen_ticker e lo hi th t = Inr None \<and>
         (\<forall>m\<in>set (results (screener_report e lo hi th tickers)). m_ticker m \<noteq> t) \<and>
         total_scanned (screener_report e lo hi th tickers) = length tickers"
proof -
  have nan: "last (calculate_rsi_fallback (map Close hist) 14) = NaN"
    using assms(3,4) last_rsi_short [of "map Close hist" 14] by auto
  have rsi: "calculate_rsi (talib e) (map Close hist) 14 =
             Inr (calculate_rsi_fallback (map Close hist) 14)"
    using assms(1) by (simp add: calculate_rsi_def)
  have il: "iloc_last (calculate_rsi_fallback (map Close hist) 14) = Inr NaN"
    using assms(3) nan by (simp add: iloc_last_def calculate_rsi_fallback_Nil_iff)
  have vol: "volume_analysis (map Volume hist) =
     Inr (last (map Volume hist), series_mean (map Volume hist),
          if 0 < series_mean (map Volume hist)
          then last (map Volume hist) / series_mean (map Volume hist) else 0)"
    using assms(3) by (intro volume_analysis_nonempty) simp
  have st: "screen_ticker e lo hi th t = Inr None"
    by (simp add: screen_ticker_retrieved [OF assms(2,3) rsi il vol])
  have "m_ticker m \<noteq> t" if "m \<in> set (results (screener_report e lo hi th tickers))" for m
  proof -
    from that have "m \<in> set (admitted_matches e lo hi th tickers)"
      by (rule results_subset_admitted)
    then obtain t' where m: "screen_ticker e lo hi th t' = Inr (Some m)"
      by (auto simp: set_admitted_matches)
    from screen_ticker_Some(1) [OF m] m st show ?thesis by auto
  qed
  with st show ?thesis by (simp add: report_fields)
qed

theorem undefined_rsi_not_admitted_witness:
  "talib scenario_env = None \<and>
   yf_history scenario_env (''C'' @ ''.OL'') ''3mo'' = Inr scenario_rows_C \<and>
   scenario_rows_C \<noteq> [] \<and> length scenario_rows_C < 14 \<and>
   screen_ticker scenario_env 30 70 1.5 ''C'' = Inr None \<and>
   total_scanned (screener_report scenario_env 30 70 1.5 [''A'', ''C'']) = 2"
proof -
  have h1: "talib scenario_env = None" by (simp add: scenario_env_def)
  have h2: "yf_history scenario_env (''C'' @ ''.OL'') ''3mo'' = Inr scenario_rows_C"
    by (simp add: scenario_env_def)
  have h3: "scenario_rows_C \<noteq> []" by (simp add: scenario_rows_C_def rows_def)
  have h4: "length scenario_rows_C < 14" by (simp add: scenario_rows_C_def rows_def)
  then have h4': "length scenario_rows_C < 14 \<or>
      last (calculate_rsi_fallback (map Close scenario_rows_C) 14) = NaN" by simp
  from undefined_rsi_not_admitted [OF h1 h2 h3 h4', of 30 70 "1.5" "[''A'', ''C'']"]
    h1 h2 h3 h4
  show ?thesis by simp
qed

end
